theory Spec2Isabelle
  imports Main
begin

section \<open>Python strings\<close>

text \<open>
  A Python \<^verbatim>\<open>str\<close> is a sequence of Unicode code points, so it is modelled as a list of
  natural numbers. \<open>u\<close> reads an ASCII literal. Isabelle string literals cannot hold a
  backslash, so the regular expressions of the source are written with \<open>rx\<close>, in which
  \<^verbatim>\<open>~\<close> stands for the backslash and \<^verbatim>\<open>#\<close> for the rupee sign U+20B9; neither
  character occurs in a pattern of the source.
\<close>

type_synonym pystr = "nat list"

abbreviation u :: "string \<Rightarrow> pystr" where
  "u s \<equiv> map of_char s"

definition rx :: "string \<Rightarrow> pystr" where
  "rx s = map (\<lambda>c. if c = CHR ''~'' then 92 else if c = CHR ''#'' then 8377 else of_char c) s"

text \<open>\<^verbatim>\<open>str.isspace\<close>, which is also what \<^verbatim>\<open>\s\<close> matches in a \<^verbatim>\<open>str\<close> pattern.\<close>

definition is_space :: "nat \<Rightarrow> bool" where
  "is_space c \<longleftrightarrow> (9 \<le> c \<and> c \<le> 13) \<or> (28 \<le> c \<and> c \<le> 32) \<or> c = 133 \<or> c = 160
     \<or> c = 5760 \<or> (8192 \<le> c \<and> c \<le> 8202) \<or> c = 8232 \<or> c = 8233 \<or> c = 8239
     \<or> c = 8287 \<or> c = 12288"

definition is_digit :: "nat \<Rightarrow> bool" where
  "is_digit c \<longleftrightarrow> 48 \<le> c \<and> c \<le> 57"

definition is_alpha :: "nat \<Rightarrow> bool" where
  "is_alpha c \<longleftrightarrow> (65 \<le> c \<and> c \<le> 90) \<or> (97 \<le> c \<and> c \<le> 122)"

definition is_word :: "nat \<Rightarrow> bool" where
  "is_word c \<longleftrightarrow> is_alpha c \<or> is_digit c \<or> c = 95"

definition lower :: "nat \<Rightarrow> nat" where
  "lower c = (if 65 \<le> c \<and> c \<le> 90 then c + 32 else c)"

definition upper :: "nat \<Rightarrow> nat" where
  "upper c = (if 97 \<le> c \<and> c \<le> 122 then c - 32 else c)"

text \<open>\<^verbatim>\<open>str.strip()\<close> removes leading and trailing whitespace.\<close>

definition strip :: "pystr \<Rightarrow> pystr" where
  "strip s = rev (dropWhile is_space (rev (dropWhile is_space s)))"

section \<open>The environment: \<^verbatim>\<open>re.search\<close> and \<^verbatim>\<open>pdfplumber\<close>\<close>

text \<open>
  The parser calls two libraries. Both are parameters of the model. An exception is the
  value \<open>Inl msg\<close>, where \<open>msg\<close> is \<^verbatim>\<open>str(e)\<close>. A match object is reduced to what the
  parser reads from it: \<^verbatim>\<open>match.group(0)\<close> and \<^verbatim>\<open>match.groups()\<close>, in which a group that
  took no part in the match is \<open>None\<close>.
\<close>

type_synonym exn = pystr

datatype flag = IGNORECASE | MULTILINE

record re_match =
  group0 :: pystr
  groups :: "pystr option list"

type_synonym re_search_fn = "pystr \<Rightarrow> pystr \<Rightarrow> flag set \<Rightarrow> exn + re_match option"

record Path =
  parent :: pystr
  name :: pystr

text \<open>
  \<^verbatim>\<open>pdfplumber.open\<close> either raises or gives the pages; \<^verbatim>\<open>page.extract_text()\<close> either
  raises or gives a string or \<^verbatim>\<open>None\<close>.
\<close>

type_synonym pdfplumber = "Path \<Rightarrow> exn + (exn + pystr option) list"

section \<open>The data model\<close>

record StatementData =
  file_name :: pystr
  issuer :: pystr
  card_number :: "pystr option"
  statement_date :: "pystr option"
  payment_due_date :: "pystr option"
  total_amount_due :: "pystr option"
  minimum_amount_due :: "pystr option"
  credit_limit :: "pystr option"
  available_credit :: "pystr option"
  previous_balance :: "pystr option"
  parsing_status :: pystr
  errors :: "pystr list"

text \<open>
  The constructor with the defaults of the dataclass: every field \<^verbatim>\<open>None\<close>; the callers
  pass the status and the errors, or leave them at \<^verbatim>\<open>"success"\<close> and the empty list.
\<close>

definition new_StatementData :: "pystr \<Rightarrow> pystr \<Rightarrow> pystr \<Rightarrow> pystr list \<Rightarrow> StatementData" where
  "new_StatementData fname iss status errs =
     \<lparr>file_name = fname, issuer = iss, card_number = None, statement_date = None,
      payment_due_date = None, total_amount_due = None, minimum_amount_due = None,
      credit_limit = None, available_credit = None, previous_balance = None,
      parsing_status = status, errors = errs\<rparr>"

text \<open>
  \<^verbatim>\<open>setattr(data, field, value)\<close> and \<^verbatim>\<open>getattr(data, field)\<close> on the eight optional
  fields, the only names that occur as keys of a \<^verbatim>\<open>'patterns'\<close> dictionary.
\<close>

definition setattr :: "StatementData \<Rightarrow> pystr \<Rightarrow> pystr \<Rightarrow> StatementData" where
  "setattr data field v =
     (if field = u ''card_number'' then data\<lparr>card_number := Some v\<rparr>
      else if field = u ''statement_date'' then data\<lparr>statement_date := Some v\<rparr>
      else if field = u ''payment_due_date'' then data\<lparr>payment_due_date := Some v\<rparr>
      else if field = u ''total_amount_due'' then data\<lparr>total_amount_due := Some v\<rparr>
      else if field = u ''minimum_amount_due'' then data\<lparr>minimum_amount_due := Some v\<rparr>
      else if field = u ''credit_limit'' then data\<lparr>credit_limit := Some v\<rparr>
      else if field = u ''available_credit'' then data\<lparr>available_credit := Some v\<rparr>
      else if field = u ''previous_balance'' then data\<lparr>previous_balance := Some v\<rparr>
      else data)"

definition getattr :: "StatementData \<Rightarrow> pystr \<Rightarrow> pystr option" where
  "getattr data field =
     (if field = u ''card_number'' then card_number data
      else if field = u ''statement_date'' then statement_date data
      else if field = u ''payment_due_date'' then payment_due_date data
      else if field = u ''total_amount_due'' then total_amount_due data
      else if field = u ''minimum_amount_due'' then minimum_amount_due data
      else if field = u ''credit_limit'' then credit_limit data
      else if field = u ''available_credit'' then available_credit data
      else if field = u ''previous_balance'' then previous_balance data
      else None)"

section \<open>The issuer registry\<close>

record config =
  "identifier" :: "pystr list"
  patterns :: "(pystr \<times> pystr list) list"

text \<open>
  The dictionary \<^verbatim>\<open>PARSERS\<close>, as the list of its items in insertion order, which is the
  order in which Python iterates over it.
\<close>

definition PARSERS :: "(pystr \<times> config) list" where
  "PARSERS =
     [(u ''ICICI Bank'',
       \<lparr>identifier =
          [rx ''ICICI~s+Bank'',
           rx ''icicibank~.com'',
           rx ''CIN.*L65190GJ1994PLC021012''],
        patterns =
          [(u ''card_number'',
             [rx ''(~d{4}[X]{8}~d{4})'',
              rx ''(~d{16})'']),
           (u ''statement_date'',
             [rx ''STATEMENT~s+DATE[:~s]*(~d{1,2}~s+~w+,?~s+~d{4})'',
              rx ''Statement~s+period~s*:.*to~s+(~w+~s+~d{1,2},~s+~d{4})'']),
           (u ''payment_due_date'',
             [rx ''PAYMENT~s+DUE~s+DATE[:~s]*(~d{1,2}~s+~w+,?~s+~d{4})'',
              rx ''Payment~s+Due~s+Date[:~s]*(~w+~s+~d{1,2},~s+~d{4})'']),
           (u ''total_amount_due'',
             [rx ''Total~s+Amount~s+due[:~s]*[#`Rs~.?~s]*([0-9,]+~.?~d{0,2})'',
              rx ''Total~s+Payment~s+Due[:~s]*[#`Rs~.?~s]*([0-9,]+~.?~d{0,2})'']),
           (u ''minimum_amount_due'',
             [rx ''Minimum~s+Amount~s+due[:~s]*[#`Rs~.?~s]*([0-9,]+~.?~d{0,2})'',
              rx ''Minimum~s+Payment~s+Due[:~s]*[#`Rs~.?~s]*([0-9,]+~.?~d{0,2})'']),
           (u ''credit_limit'',
             [rx ''Credit~s+Limit~s*~(Including~s+cash~)[:~s]*[#`Rs~.?~s]*([0-9,]+~.?~d{0,2})'',
              rx ''Credit~s+Limit[:~s]*[#`Rs~.?~s]*([0-9,]+~.?~d{0,2})'']),
           (u ''available_credit'',
             [rx ''Available~s+Credit~s*~(Including~s+cash~)[:~s]*[#`Rs~.?~s]*([0-9,]+~.?~d{0,2})'']),
           (u ''previous_balance'',
             [rx ''Previous~s+Balance[:~s]*[#`Rs~.?~s]*([0-9,]+~.?~d{0,2})''])]\<rparr>),
      (u ''Axis Bank'',
       \<lparr>identifier =
          [rx ''Axis~s+Bank'',
           rx ''axisbank~.com'',
           rx ''AAACU2414K3ZD''],
        patterns =
          [(u ''card_number'',
             [rx ''Card~s+No[:~s]*(~d{8}~*{4}~d{4})'',
              rx ''Card~s+No[:~s]*(~d{14}~*{4}~d{4})'',
              rx ''Credit~s+Card~s+Number[:~s]*(~d{8}~*{4}~d{4})'']),
           (u ''statement_date'',
             [rx ''Statement~s+Generation~s+Date[:~s]*(~d{2}[~/~-]~d{2}[~/~-]~d{4})'',
              rx ''(~d{2}[~/~-]~d{2}[~/~-]~d{4})~s*-~s*(~d{2}[~/~-]~d{2}[~/~-]~d{4})'']),
           (u ''payment_due_date'',
             [rx ''Payment~s+Due~s+Date[:~s]*(~d{2}[~/~-]~d{2}[~/~-]~d{4})'']),
           (u ''total_amount_due'',
             [rx ''Total~s+Payment~s+Due[:~s]*([0-9,]+~.?~d{0,2})~s*Dr'',
              rx ''Total~s+Amount~s+Due[:~s]*([0-9,]+~.?~d{0,2})'']),
           (u ''minimum_amount_due'',
             [rx ''Minimum~s+Payment~s+Due[:~s]*([0-9,]+~.?~d{0,2})~s*Dr'',
              rx ''Minimum~s+Amount~s+Due[:~s]*([0-9,]+~.?~d{0,2})'']),
           (u ''credit_limit'',
             [rx ''Credit~s+Limit[:~s]*([0-9,]+~.?~d{0,2})'']),
           (u ''available_credit'',
             [rx ''Available~s+Credit~s+Limit[:~s]*([0-9,]+~.?~d{0,2})'']),
           (u ''previous_balance'',
             [rx ''Previous~s+Balance[:~s]*-?~s*([0-9,]+~.?~d{0,2})~s*Dr''])]\<rparr>),
      (u ''IDFC FIRST Bank'',
       \<lparr>identifier =
          [rx ''IDFC~s+FIRST~s+Bank'',
           rx ''idfcfirstbank~.com'',
           rx ''IDFB0010225''],
        patterns =
          [(u ''card_number'',
             [rx ''Card~s+Number[:~s]*XXXX~s*(~d{4})'',
              rx ''Account~s+Number[:~s]*(~d+)'']),
           (u ''statement_date'',
             [rx ''(~d{2}~/~d{2}~/~d{4})~s*-~s*(~d{2}~/~d{2}~/~d{4})'']),
           (u ''payment_due_date'',
             [rx ''Payment~s+Due~s+Date[:~s]*(~d{2}~/~d{2}~/~d{4})'']),
           (u ''total_amount_due'',
             [rx ''Total~s+Amount~s+Due[:~s]*r([0-9,]+~.?~d{0,2})'']),
           (u ''minimum_amount_due'',
             [rx ''Minimum~s+Amount~s+Due[:~s]*r([0-9,]+~.?~d{0,2})'']),
           (u ''credit_limit'',
             [rx ''Credit~s+Limit[:~s]*r([0-9,]+~.?~d{0,2})'']),
           (u ''available_credit'',
             [rx ''Available~s+Credit~s+Limit[:~s]*r([0-9,]+~.?~d{0,2})''])]\<rparr>),
      (u ''RBL Bank'',
       \<lparr>identifier =
          [rx ''RBL~s+Bank'',
           rx ''rblbank~.com'',
           rx ''L65191PN1943PLC007308''],
        patterns =
          [(u ''card_number'',
             [rx ''(~d{4}~s*XXXX~s*XXXX~s*~d{4})'',
              rx ''(~d{4}~s*X{4}~s*X{4}~s*~d{4})'']),
           (u ''statement_date'',
             [rx ''(~d{2}~/~d{2}~/~d{4})~s*to~s*(~d{2}~/~d{2}~/~d{4})'']),
           (u ''payment_due_date'',
             [rx ''Immediate(~d{2}~/~d{2}~/~d{4})'']),
           (u ''total_amount_due'',
             [rx ''([0-9,]+~.?~d{0,2})~s*~n~s*([0-9,]+~.?~d{0,2})~s*~n~s*0~.00'']),
           (u ''minimum_amount_due'',
             [rx ''Minimum[^0-9]*([0-9,]+~.?~d{0,2})'']),
           (u ''credit_limit'',
             [rx ''([0-9,]+~.?~d{0,2})~s*0~.00~s*0~.00''])]\<rparr>),
      (u ''American Express'',
       \<lparr>identifier =
          [rx ''American~s+Express'',
           rx ''americanexpress~.com'',
           rx ''AMEX''],
        patterns =
          [(u ''card_number'',
             [rx ''Account~s+Ending~s*(~d-~d{5})'',
              rx ''Card~s+Ending~s*(~d-~d{5})'']),
           (u ''statement_date'',
             [rx ''Closing~s+Date[:~s]*(~d{2}~/~d{2}~/~d{2,4})'']),
           (u ''payment_due_date'',
             [rx ''Payment~s+Due~s+Date[:~s]*(~d{2}~/~d{2}~/~d{2,4})'']),
           (u ''total_amount_due'',
             [rx ''New~s+Balance[:~s]*~$([0-9,]+~.?~d{0,2})'',
              rx ''Total[:~s]*~$([0-9,]+~.?~d{0,2})'']),
           (u ''minimum_amount_due'',
             [rx ''Minimum~s+Payment~s+Due[:~s]*~$([0-9,]+~.?~d{0,2})'']),
           (u ''credit_limit'',
             [rx ''Pay~s+Over~s+Time~s+Limit[:~s]*~$([0-9,]+~.?~d{0,2})'',
              rx ''Credit~s+Limit[:~s]*~$([0-9,]+~.?~d{0,2})'']),
           (u ''available_credit'',
             [rx ''Available~s+Pay~s+Over~s+Time~s+Limit[:~s]*~$([0-9,]+~.?~d{0,2})'']),
           (u ''previous_balance'',
             [rx ''Previous~s+Balance[:~s]*~$([0-9,]+~.?~d{0,2})''])]\<rparr>)]"

section \<open>The parser\<close>

text \<open>\<^verbatim>\<open>identify_issuer\<close>: the inner loop over the identifier patterns of one profile.\<close>

fun search_any :: "re_search_fn \<Rightarrow> pystr \<Rightarrow> pystr list \<Rightarrow> exn + bool" where
  "search_any re text [] = Inr False"
| "search_any re text (pattern # rest) =
     (case re pattern text {IGNORECASE} of
        Inl e \<Rightarrow> Inl e
      | Inr None \<Rightarrow> search_any re text rest
      | Inr (Some found) \<Rightarrow> Inr True)"

text \<open>The outer loop over the items of the registry.\<close>

fun identify_in :: "re_search_fn \<Rightarrow> pystr \<Rightarrow> (pystr \<times> config) list \<Rightarrow> exn + pystr option" where
  "identify_in re text [] = Inr None"
| "identify_in re text ((iss, cfg) # rest) =
     (case search_any re text (identifier cfg) of
        Inl e \<Rightarrow> Inl e
      | Inr hit \<Rightarrow> if hit then Inr (Some iss) else identify_in re text rest)"

definition identify_issuer :: "re_search_fn \<Rightarrow> pystr \<Rightarrow> exn + pystr option" where
  "identify_issuer re text = identify_in re text PARSERS"

text \<open>
  \<^verbatim>\<open>groups[-1] if groups else match.group(0)\<close>: the last group when the pattern has groups,
  the whole match otherwise.
\<close>

definition match_value :: "re_match \<Rightarrow> pystr option" where
  "match_value found = (if groups found \<noteq> [] then last (groups found) else Some (group0 found))"

fun extract_field :: "re_search_fn \<Rightarrow> pystr \<Rightarrow> pystr list \<Rightarrow> exn + pystr option" where
  "extract_field re text [] = Inr None"
| "extract_field re text (pattern # rest) =
     (case re pattern text {IGNORECASE, MULTILINE} of
        Inl e \<Rightarrow> Inl e
      | Inr None \<Rightarrow> extract_field re text rest
      | Inr (Some found) \<Rightarrow> Inr (match_value found))"

text \<open>
  \<^verbatim>\<open>extract_text_from_pdf\<close>: the texts of the pages are concatenated, a page without text
  counting as the empty string; any exception is raised again with a prefix.
\<close>

fun read_pages :: "(exn + pystr option) list \<Rightarrow> pystr \<Rightarrow> exn + pystr" where
  "read_pages [] text = Inr text"
| "read_pages (page # pages) text =
     (case page of
        Inl e \<Rightarrow> Inl e
      | Inr None \<Rightarrow> read_pages pages text
      | Inr (Some t) \<Rightarrow> read_pages pages (text @ t))"

definition extract_text_from_pdf :: "pdfplumber \<Rightarrow> Path \<Rightarrow> exn + pystr" where
  "extract_text_from_pdf plumber pdf_path =
     (case (case plumber pdf_path of Inl e \<Rightarrow> Inl e | Inr pages \<Rightarrow> read_pages pages []) of
        Inl e \<Rightarrow> Inl (u ''Failed to extract text from PDF: '' @ e)
      | Inr text \<Rightarrow> Inr text)"

text \<open>
  The loop of \<^verbatim>\<open>parse_statement\<close> over the items of \<^verbatim>\<open>config['patterns']\<close>. The test
  \<^verbatim>\<open>if value\<close> fails for \<^verbatim>\<open>None\<close> and for the empty string.
\<close>

definition truthy :: "pystr option \<Rightarrow> bool" where
  "truthy v = (case v of None \<Rightarrow> False | Some s \<Rightarrow> s \<noteq> [])"

fun extract_fields ::
  "re_search_fn \<Rightarrow> pystr \<Rightarrow> (pystr \<times> pystr list) list \<Rightarrow> StatementData \<Rightarrow> pystr list
     \<Rightarrow> exn + StatementData \<times> pystr list" where
  "extract_fields re text [] data errs = Inr (data, errs)"
| "extract_fields re text ((field, pats) # rest) data errs =
     (case extract_field re text pats of
        Inl e \<Rightarrow> Inl e
      | Inr v \<Rightarrow>
          (case v of
             None \<Rightarrow> extract_fields re text rest data (errs @ [u ''Could not extract '' @ field])
           | Some s \<Rightarrow>
               if s \<noteq> [] then extract_fields re text rest (setattr data field (strip s)) errs
               else extract_fields re text rest data (errs @ [u ''Could not extract '' @ field])))"

definition critical_fields :: "pystr list" where
  "critical_fields = [u ''card_number'', u ''total_amount_due'', u ''payment_due_date'']"

text \<open>The end of the \<^verbatim>\<open>try\<close> block: the errors and the status.\<close>

definition set_status :: "StatementData \<Rightarrow> pystr list \<Rightarrow> StatementData" where
  "set_status data errs =
     (if errs \<noteq> [] then
        (if list_all (\<lambda>f. getattr data f = None) critical_fields
         then data\<lparr>errors := errs, parsing_status := u ''failed''\<rparr>
         else data\<lparr>errors := errs, parsing_status := u ''partial''\<rparr>)
      else data)"

text \<open>The body of the \<^verbatim>\<open>try\<close> block of \<^verbatim>\<open>parse_statement\<close>.\<close>

definition try_parse :: "re_search_fn \<Rightarrow> pdfplumber \<Rightarrow> Path \<Rightarrow> exn + StatementData" where
  "try_parse re plumber pdf_path =
     (case extract_text_from_pdf plumber pdf_path of
        Inl e \<Rightarrow> Inl e
      | Inr text \<Rightarrow>
          (case identify_issuer re text of
             Inl e \<Rightarrow> Inl e
           | Inr found \<Rightarrow>
               (case found of
                  None \<Rightarrow>
                    Inr (new_StatementData (name pdf_path) (u ''Unknown'') (u ''failed'')
                           [u ''Could not identify credit card issuer''])
                | Some iss \<Rightarrow>
                    if iss = [] then
                      Inr (new_StatementData (name pdf_path) (u ''Unknown'') (u ''failed'')
                             [u ''Could not identify credit card issuer''])
                    else
                      (case map_of PARSERS iss of
                         None \<Rightarrow> Inl ([39] @ iss @ [39])
                       | Some cfg \<Rightarrow>
                           (case extract_fields re text (patterns cfg)
                                   (new_StatementData (name pdf_path) iss (u ''success'') []) [] of
                              Inl e \<Rightarrow> Inl e
                            | Inr (data, errs) \<Rightarrow> Inr (set_status data errs))))))"

definition parse_statement :: "re_search_fn \<Rightarrow> pdfplumber \<Rightarrow> Path \<Rightarrow> StatementData" where
  "parse_statement re plumber pdf_path =
     (case try_parse re plumber pdf_path of
        Inr data \<Rightarrow> data
      | Inl e \<Rightarrow> new_StatementData (name pdf_path) (u ''Error'') (u ''error'') [e])"

text \<open>
  \<^verbatim>\<open>parse_multiple\<close> prints two progress lines per document, outside every \<^verbatim>\<open>try\<close>.
  \<^verbatim>\<open>print\<close> writes to the standard output, which is a parameter of the model like the
  two libraries: it takes the state of the output and the line, and gives the new state or
  raises (a \<^verbatim>\<open>UnicodeEncodeError\<close> when the encoding of the output cannot represent the
  line, for instance). An exception of \<^verbatim>\<open>print\<close> leaves the loop and the function.
\<close>

type_synonym 's printer = "'s \<Rightarrow> pystr \<Rightarrow> exn + 's"

text \<open>The check mark U+2713, the warning sign U+26A0 or the ballot cross U+2717.\<close>

definition status_symbol :: "StatementData \<Rightarrow> pystr" where
  "status_symbol result =
     (if parsing_status result = u ''success'' then [10003]
      else if parsing_status result = u ''partial'' then [9888]
      else [10007])"

definition processing_line :: "Path \<Rightarrow> pystr" where
  "processing_line pdf_path = u ''Processing: '' @ name pdf_path @ u ''...''"

definition feedback_line :: "StatementData \<Rightarrow> pystr" where
  "feedback_line result =
     u ''  '' @ status_symbol result @ u '' '' @ issuer result @ u '' - '' @ parsing_status result"

text \<open>
  The loop appends one result per path to \<^verbatim>\<open>self.results\<close>, which starts empty, and the
  function returns that list; the model returns the state of the output with it.
\<close>

fun parse_loop ::
  "re_search_fn \<Rightarrow> pdfplumber \<Rightarrow> 's printer \<Rightarrow> Path list \<Rightarrow> StatementData list \<Rightarrow> 's
     \<Rightarrow> exn + StatementData list \<times> 's" where
  "parse_loop re plumber print [] results out = Inr (results, out)"
| "parse_loop re plumber print (pdf_path # rest) results out =
     (case print out (processing_line pdf_path) of
        Inl e \<Rightarrow> Inl e
      | Inr out1 \<Rightarrow>
          (case print out1 (feedback_line (parse_statement re plumber pdf_path)) of
             Inl e \<Rightarrow> Inl e
           | Inr out2 \<Rightarrow>
               parse_loop re plumber print rest
                 (results @ [parse_statement re plumber pdf_path]) out2))"

definition parse_multiple ::
  "re_search_fn \<Rightarrow> pdfplumber \<Rightarrow> 's printer \<Rightarrow> Path list \<Rightarrow> 's
     \<Rightarrow> exn + StatementData list \<times> 's" where
  "parse_multiple re plumber print pdf_paths out = parse_loop re plumber print pdf_paths [] out"

section \<open>A model of \<^verbatim>\<open>re.search\<close>\<close>

text \<open>
  The general theorems below hold for every matcher. For the concrete examples the
  fragment of Python's regular expressions that the registry uses is modelled: literals,
  the dot, the escapes \<^verbatim>\<open>\s \d \w \n \t \r\<close> and escaped punctuation, character sets with
  ranges and negation, capturing groups, and the greedy repeats \<^verbatim>\<open>* + ? {n} {n,m} {n,}\<close>
  of a single character. A pattern is compiled to a flat list of instructions and run by
  backtracking, the longest repeat first, from the leftmost start position on. A pattern
  outside the fragment (alternation, anchors, repeated groups, lazy repeats) is reported
  like a pattern that does not compile. \<^verbatim>\<open>\d\<close>, \<^verbatim>\<open>\w\<close> and the case folding of
  \<^verbatim>\<open>re.IGNORECASE\<close> are modelled on ASCII; \<^verbatim>\<open>re.MULTILINE\<close> only changes the anchors,
  which the fragment does not have.
\<close>

datatype category = Space | Digit | Word

datatype item = Chr nat | Range nat nat | Cat category

datatype atom = Lit nat | Dot | Esc category | Set bool "item list"

datatype instr = One atom | Rep nat "nat option" atom | Open nat | Close nat

fun category_ok :: "category \<Rightarrow> nat \<Rightarrow> bool" where
  "category_ok Space c = is_space c"
| "category_ok Digit c = is_digit c"
| "category_ok Word c = is_word c"

fun item_ok :: "item \<Rightarrow> nat \<Rightarrow> bool" where
  "item_ok (Chr l) c = (c = l)"
| "item_ok (Range a b) c = (a \<le> c \<and> c \<le> b)"
| "item_ok (Cat k) c = category_ok k c"

fun items_ok :: "item list \<Rightarrow> nat \<Rightarrow> bool" where
  "items_ok [] c = False"
| "items_ok (x # xs) c = (if item_ok x c then True else items_ok xs c)"

fun atom_ok :: "bool \<Rightarrow> atom \<Rightarrow> nat \<Rightarrow> bool" where
  "atom_ok ic (Lit l) c = (if ic then lower c = lower l else c = l)"
| "atom_ok ic Dot c = (c \<noteq> 10)"
| "atom_ok ic (Esc k) c = category_ok k c"
| "atom_ok ic (Set neg xs) c =
     ((if ic then (if items_ok xs (lower c) then True else items_ok xs (upper c))
       else items_ok xs c) \<noteq> neg)"

fun esc_outside :: "nat \<Rightarrow> atom option" where
  "esc_outside c =
     (if c = 115 then Some (Esc Space)
      else if c = 100 then Some (Esc Digit)
      else if c = 119 then Some (Esc Word)
      else if c = 110 then Some (Lit 10)
      else if c = 116 then Some (Lit 9)
      else if c = 114 then Some (Lit 13)
      else if is_alpha c \<or> is_digit c \<or> 128 \<le> c then None
      else Some (Lit c))"

fun esc_inside :: "nat \<Rightarrow> item option" where
  "esc_inside c =
     (if c = 115 then Some (Cat Space)
      else if c = 100 then Some (Cat Digit)
      else if c = 119 then Some (Cat Word)
      else if c = 110 then Some (Chr 10)
      else if c = 116 then Some (Chr 9)
      else if c = 114 then Some (Chr 13)
      else if is_alpha c \<or> is_digit c \<or> 128 \<le> c then None
      else Some (Chr c))"

datatype token = TAtom atom | TOpen | TClose | TRep nat "nat option"

definition number :: "pystr \<Rightarrow> nat" where
  "number ds = foldl (\<lambda>n d. 10 * n + (d - 48)) 0 ds"

definition brace :: "pystr \<Rightarrow> (token \<times> nat) option" where
  "brace cs =
     (let ds = takeWhile is_digit cs; r = dropWhile is_digit cs
      in if ds = [] then None
         else (case r of [] \<Rightarrow> None
               | c # r' \<Rightarrow>
                   if c = 125 then Some (TRep (number ds) (Some (number ds)), Suc (length ds))
                   else if c = 44 then
                     (let es = takeWhile is_digit r'; r'' = dropWhile is_digit r'
                      in (case r'' of [] \<Rightarrow> None
                          | d # _ \<Rightarrow>
                              if d \<noteq> 125 then None
                              else if es = [] then Some (TRep (number ds) None, length ds + 2)
                              else if number es < number ds then None
                              else Some (TRep (number ds) (Some (number es)),
                                         length ds + length es + 2)))
                   else None))"

fun cls_items :: "item list \<Rightarrow> nat \<Rightarrow> pystr \<Rightarrow> (item list \<times> nat) option" where
  "cls_items xs k [] = None"
| "cls_items xs k [c] = (if c = 93 \<and> xs \<noteq> [] then Some (rev xs, Suc k) else None)"
| "cls_items xs k [c, d] =
     (if c = 93 then (if xs = [] then None else Some (rev xs, Suc k))
      else if c = 92 then
        (case esc_inside d of None \<Rightarrow> None | Some x \<Rightarrow> cls_items (x # xs) (k + 2) [])
      else cls_items (Chr c # xs) (Suc k) [d])"
| "cls_items xs k (c # d # e # cs) =
     (if c = 93 then (if xs = [] then None else Some (rev xs, Suc k))
      else if c = 92 then
        (case esc_inside d of None \<Rightarrow> None | Some x \<Rightarrow> cls_items (x # xs) (k + 2) (e # cs))
      else if d = 45 \<and> e \<noteq> 93 then
        (if e = 92 \<or> e < c then None else cls_items (Range c e # xs) (k + 3) cs)
      else cls_items (Chr c # xs) (Suc k) (d # e # cs))"

definition cls :: "pystr \<Rightarrow> (token \<times> nat) option" where
  "cls cs =
     (case cs of [] \<Rightarrow> None
      | c # cs' \<Rightarrow>
          if c = 94
          then map_option (\<lambda>(xs, k). (TAtom (Set True xs), Suc k)) (cls_items [] 0 cs')
          else map_option (\<lambda>(xs, k). (TAtom (Set False xs), k)) (cls_items [] 0 cs))"

definition lex1 :: "nat \<Rightarrow> pystr \<Rightarrow> (token \<times> nat) option" where
  "lex1 c cs =
     (if c = 92 then
        (case cs of [] \<Rightarrow> None | e # _ \<Rightarrow> map_option (\<lambda>a. (TAtom a, 1)) (esc_outside e))
      else if c = 91 then cls cs
      else if c = 40 then
        (case cs of [] \<Rightarrow> None | e # _ \<Rightarrow> if e = 63 then None else Some (TOpen, 0))
      else if c = 41 then Some (TClose, 0)
      else if c = 46 then Some (TAtom Dot, 0)
      else if c = 42 then Some (TRep 0 None, 0)
      else if c = 43 then Some (TRep 1 None, 0)
      else if c = 63 then Some (TRep 0 (Some 1), 0)
      else if c = 123 then brace cs
      else if c = 124 \<or> c = 94 \<or> c = 36 then None
      else Some (TAtom (Lit c), 0))"

fun lex :: "pystr \<Rightarrow> token list option" where
  "lex [] = Some []"
| "lex (c # cs) =
     (case lex1 c cs of None \<Rightarrow> None
      | Some (t, k) \<Rightarrow> map_option ((#) t) (lex (drop k cs)))"

fun asm :: "instr list \<Rightarrow> nat list \<Rightarrow> nat \<Rightarrow> token list \<Rightarrow> (instr list \<times> nat) option" where
  "asm acc st ng [] = (if st = [] then Some (rev acc, ng) else None)"
| "asm acc st ng (TAtom a # TRep lo hi # TRep lo' hi' # ts) = None"
| "asm acc st ng (TAtom a # TRep lo hi # ts) = asm (Rep lo hi a # acc) st ng ts"
| "asm acc st ng (TAtom a # ts) = asm (One a # acc) st ng ts"
| "asm acc st ng (TOpen # ts) = asm (Open (Suc ng) # acc) (Suc ng # st) (Suc ng) ts"
| "asm acc st ng (TClose # TRep lo hi # ts) = None"
| "asm acc st ng (TClose # ts) =
     (case st of [] \<Rightarrow> None | g # st' \<Rightarrow> asm (Close g # acc) st' ng ts)"
| "asm acc st ng (TRep lo hi # ts) = None"

definition re_compile :: "pystr \<Rightarrow> (instr list \<times> nat) option" where
  "re_compile pattern = (case lex pattern of None \<Rightarrow> None | Some ts \<Rightarrow> asm [] [] 0 ts)"

type_synonym caps = "(nat \<times> nat) list \<times> (nat \<times> nat \<times> nat) list"

fun span_len :: "bool \<Rightarrow> atom \<Rightarrow> nat option \<Rightarrow> pystr \<Rightarrow> nat" where
  "span_len ic a hi [] = 0"
| "span_len ic a hi (c # cs) =
     (if hi = Some 0 then 0
      else if atom_ok ic a c then Suc (span_len ic a (map_option (\<lambda>h. h - 1) hi) cs)
      else 0)"

fun run :: "bool \<Rightarrow> instr list \<Rightarrow> pystr \<Rightarrow> nat \<Rightarrow> caps \<Rightarrow> (nat \<times> caps) option"
and backtrack :: "bool \<Rightarrow> instr list \<Rightarrow> pystr \<Rightarrow> nat \<Rightarrow> caps \<Rightarrow> nat \<Rightarrow> nat \<Rightarrow> (nat \<times> caps) option"
where
  "run ic [] cs i st = Some (i, st)"
| "run ic (One a # is) [] i st = None"
| "run ic (One a # is) (c # cs) i st = (if atom_ok ic a c then run ic is cs (Suc i) st else None)"
| "run ic (Open g # is) cs i st = run ic is cs i ((g, i) # fst st, snd st)"
| "run ic (Close g # is) cs i st =
     (case map_of (fst st) g of None \<Rightarrow> None
      | Some s \<Rightarrow> run ic is cs i (fst st, (g, s, i) # snd st))"
| "run ic (Rep lo hi a # is) cs i st =
     (let k = span_len ic a hi cs in if k < lo then None else backtrack ic is cs i st lo (k - lo))"
| "backtrack ic is cs i st lo 0 = run ic is (drop lo cs) (i + lo) st"
| "backtrack ic is cs i st lo (Suc n) =
     (case run ic is (drop (lo + Suc n) cs) (i + lo + Suc n) st of
        Some r \<Rightarrow> Some r
      | None \<Rightarrow> backtrack ic is cs i st lo n)"

fun scan :: "bool \<Rightarrow> instr list \<Rightarrow> pystr \<Rightarrow> nat \<Rightarrow> (nat \<times> nat \<times> caps) option" where
  "scan ic prog [] i = map_option (Pair i) (run ic prog [] i ([], []))"
| "scan ic prog (c # cs) i =
     (case run ic prog (c # cs) i ([], []) of
        Some r \<Rightarrow> Some (i, r)
      | None \<Rightarrow> scan ic prog cs (Suc i))"

definition substring :: "pystr \<Rightarrow> nat \<Rightarrow> nat \<Rightarrow> pystr" where
  "substring text a b = take (b - a) (drop a text)"

definition re_search :: "pystr \<Rightarrow> pystr \<Rightarrow> flag set \<Rightarrow> pystr + re_match option" where
  "re_search pattern text flags =
     (case re_compile pattern of
        None \<Rightarrow> Inl (u ''bad pattern'')
      | Some (prog, ng) \<Rightarrow>
          (case scan (IGNORECASE \<in> flags) prog text 0 of
             None \<Rightarrow> Inr None
           | Some (s, e, st) \<Rightarrow>
               Inr (Some \<lparr>group0 = substring text s e,
                          groups = map (\<lambda>g. map_option (\<lambda>(a, b). substring text a b) (map_of (snd st) g))
                                       [1..<Suc ng]\<rparr>)))"

section \<open>Notions used in the statements\<close>

text \<open>The eight optional fields of a record, by name.\<close>

definition field_names :: "pystr list" where
  "field_names = [u ''card_number'', u ''statement_date'', u ''payment_due_date'',
     u ''total_amount_due'', u ''minimum_amount_due'', u ''credit_limit'',
     u ''available_credit'', u ''previous_balance'']"

text \<open>
  A field is matched when its fallback chain yields a value that passes the test
  \<^verbatim>\<open>if value\<close>; \<open>missing\<close> lists the fields of a profile that are not matched, in the
  order of the profile.
\<close>

definition field_hit :: "re_search_fn \<Rightarrow> pystr \<Rightarrow> pystr list \<Rightarrow> bool" where
  "field_hit re text pats =
     (case extract_field re text pats of
        Inl e \<Rightarrow> False
      | Inr None \<Rightarrow> False
      | Inr (Some s) \<Rightarrow> s \<noteq> [])"

definition missing :: "re_search_fn \<Rightarrow> pystr \<Rightarrow> (pystr \<times> pystr list) list \<Rightarrow> pystr list" where
  "missing re text fs = map fst (filter (\<lambda>(f, ps). \<not> field_hit re text ps) fs)"

text \<open>
  Every pattern of the registry. \<^verbatim>\<open>re.search\<close> raises only for a pattern that does not
  compile, so a matcher that stands for it never raises on these patterns.
\<close>

definition all_patterns :: "pystr list" where
  "all_patterns =
     concat (map (\<lambda>(iss, cfg). identifier cfg @ concat (map snd (patterns cfg))) PARSERS)"

definition never_raises :: "re_search_fn \<Rightarrow> bool" where
  "never_raises re \<longleftrightarrow> (\<forall>p\<in>set all_patterns. \<forall>text flags. \<exists>r. re p text flags = Inr r)"

text \<open>
  What the registry guarantees for each profile: a name that is not empty, patterns for
  the three critical fields, and no field outside the eight of the record.
\<close>

definition profile_ok :: "pystr \<times> config \<Rightarrow> bool" where
  "profile_ok entry \<longleftrightarrow>
     fst entry \<noteq> [] \<and>
     list_all (\<lambda>f. f \<in> set (map fst (patterns (snd entry)))) critical_fields \<and>
     list_all (\<lambda>f. f \<in> set field_names) (map fst (patterns (snd entry)))"

text \<open>
  The progress lines of a batch, in the order in which they are printed, and what printing
  a list of lines one after the other does to the output.
\<close>

definition progress_lines :: "re_search_fn \<Rightarrow> pdfplumber \<Rightarrow> Path list \<Rightarrow> pystr list" where
  "progress_lines re plumber pdf_paths =
     concat (map (\<lambda>pdf_path. [processing_line pdf_path,
                                 feedback_line (parse_statement re plumber pdf_path)]) pdf_paths)"

fun print_all :: "'s printer \<Rightarrow> 's \<Rightarrow> pystr list \<Rightarrow> exn + 's" where
  "print_all print out [] = Inr out"
| "print_all print out (line # rest) =
     (case print out line of Inl e \<Rightarrow> Inl e | Inr out1 \<Rightarrow> print_all print out1 rest)"


section \<open>Example documents\<close>

text \<open>A text extractor that finds one page with the given text in every file.\<close>

definition one_page :: "pystr \<Rightarrow> pdfplumber" where
  "one_page text = (\<lambda>pdf_path. Inr [Inr (Some text)])"

text \<open>A text extractor that cannot open any file.\<close>

definition unreadable :: "pystr \<Rightarrow> pdfplumber" where
  "unreadable msg = (\<lambda>pdf_path. Inl msg)"

definition icici_text :: pystr where
  "icici_text =
     u ''ICICI Bank\<newline>Total Amount due: Rs. 12,345.67\<newline>Payment Due Date: 05 Jan, 2025''"

definition icici_pdf :: Path where
  "icici_pdf = \<lparr>parent = u ''statements'', name = u ''icici.pdf''\<rparr>"

definition other_pdf :: Path where
  "other_pdf = \<lparr>parent = u ''statements'', name = u ''other.pdf''\<rparr>"

text \<open>
  A text that names no issuer of the registry, a text that names two of them, and a text
  on which both patterns of a fallback chain match.
\<close>

definition hdfc_text :: pystr where
  "hdfc_text = u ''HDFC Bank credit card statement''"

definition axis_text :: pystr where
  "axis_text = u ''Pay at axisbank.com or any RBL Bank branch''"

definition two_totals_text :: pystr where
  "two_totals_text = u ''Total Payment Due: 7.00 Total Amount due: 5.00''"

text \<open>A text extractor that reads the example statement and fails on every other file.\<close>

definition mixed :: pdfplumber where
  "mixed = (\<lambda>pdf_path. if name pdf_path = u ''icici.pdf'' then Inr [Inr (Some icici_text)]
                          else Inl (u ''No such file''))"

text \<open>
  A second document with the same issuer name, total and due date, in another order and
  with other words around them.
\<close>

definition icici_letter :: pystr where
  "icici_letter =
     u ''Payment Due Date: 05 Jan, 2025\<newline>Dear customer of ICICI Bank,\<newline>your Total Amount due: Rs. 12,345.67 is payable now.''"

text \<open>
  A standard output that takes every line, and one that is encoded in ASCII and raises on
  a line with any other character; the state is the list of the lines written.
\<close>

definition utf8_stdout :: "pystr list printer" where
  "utf8_stdout out line = Inr (out @ [line])"

definition ascii_stdout :: "pystr list printer" where
  "ascii_stdout out line =
     (if list_all (\<lambda>c. c < 128) line then Inr (out @ [line])
      else Inl (u ''UnicodeEncodeError''))"

lemmas engine_defs = re_search_def re_compile_def rx_def lex1_def cls_def brace_def number_def
  is_space_def is_digit_def is_alpha_def is_word_def lower_def upper_def substring_def

section \<open>Auxiliary facts\<close>

lemma extract_field_skip:
  "\<forall>q\<in>set before. re q text {IGNORECASE, MULTILINE} = Inr None \<Longrightarrow>
   extract_field re text (before @ rest) = extract_field re text rest"
  by (induction before) simp_all

lemma extract_field_first_match:
  assumes "\<forall>q\<in>set before. re q text {IGNORECASE, MULTILINE} = Inr None"
    and "re p text {IGNORECASE, MULTILINE} = Inr (Some found)"
  shows "extract_field re text (before @ p # rest) = Inr (match_value found)"
  using assms by (simp add: extract_field_skip)

lemma search_any_skip:
  "\<forall>q\<in>set ps. re q text {IGNORECASE} = Inr None \<Longrightarrow>
   search_any re text (ps @ rest) = search_any re text rest"
  by (induction ps) simp_all

lemma search_any_none:
  "\<forall>q\<in>set ps. re q text {IGNORECASE} = Inr None \<Longrightarrow> search_any re text ps = Inr False"
  using search_any_skip [of ps re "text" "[]"] by simp

lemma identify_in_skip:
  "\<forall>(n, c)\<in>set before. \<forall>q\<in>set (identifier c). re q text {IGNORECASE} = Inr None \<Longrightarrow>
   identify_in re text (before @ rest) = identify_in re text rest"
  by (induction before) (auto simp: search_any_none)

lemma identify_in_found:
  assumes "\<forall>(n, c)\<in>set before. \<forall>q\<in>set (identifier c). re q text {IGNORECASE} = Inr None"
    and "identifier cfg = ps @ p # qs"
    and "\<forall>q\<in>set ps. re q text {IGNORECASE} = Inr None"
    and "re p text {IGNORECASE} = Inr (Some found)"
  shows "identify_in re text (before @ (iss, cfg) # rest) = Inr (Some iss)"
proof -
  have "search_any re text (identifier cfg) = search_any re text (p # qs)"
    using assms(2,3) by (simp add: search_any_skip)
  also have "\<dots> = Inr True"
    using assms(4) by simp
  finally show ?thesis
    using assms(1) by (simp add: identify_in_skip)
qed

lemma progress_lines_Cons:
  "progress_lines re plumber (p # ps) =
     processing_line p # feedback_line (parse_statement re plumber p) # progress_lines re plumber ps"
  by (simp add: progress_lines_def)

lemma parse_loop_print_all:
  "parse_loop re plumber print ps acc out =
     (case print_all print out (progress_lines re plumber ps) of
        Inl e \<Rightarrow> Inl e
      | Inr out' \<Rightarrow> Inr (acc @ map (parse_statement re plumber) ps, out'))"
proof (induction ps arbitrary: acc out)
  case Nil
  then show ?case by (simp add: progress_lines_def)
next
  case (Cons p ps)
  show ?case
    by (simp add: progress_lines_Cons Cons.IH split: sum.splits)
qed

lemma setattr_keeps [simp]:
  "file_name (setattr d f v) = file_name d"
  "issuer (setattr d f v) = issuer d"
  "parsing_status (setattr d f v) = parsing_status d"
  "errors (setattr d f v) = errors d"
  by (simp_all add: setattr_def)

lemma extract_fields_keeps:
  "extract_fields re text fs d errs = Inr (d', errs') \<Longrightarrow>
   file_name d' = file_name d \<and> issuer d' = issuer d \<and>
   parsing_status d' = parsing_status d \<and> errors d' = errors d"
  by (induction fs arbitrary: d errs) (auto split: sum.splits option.splits if_splits)

lemma set_status_keeps [simp]:
  "file_name (set_status d errs) = file_name d"
  "issuer (set_status d errs) = issuer d"
  by (simp_all add: set_status_def)

lemma file_name_parse_statement: "file_name (parse_statement re plumber p) = name p"
  by (auto simp: parse_statement_def try_parse_def new_StatementData_def
      split: sum.splits option.splits if_splits dest!: extract_fields_keeps)

lemma PARSERS_ok: "list_all profile_ok PARSERS"
  by (simp add: PARSERS_def profile_ok_def critical_fields_def field_names_def)

lemma getattr_setattr_None:
  "getattr (setattr d f v) g = None \<longleftrightarrow> getattr d g = None \<and> \<not> (f = g \<and> g \<in> set field_names)"
  by (simp add: getattr_def setattr_def field_names_def)

lemma extract_field_total:
  "\<forall>p\<in>set ps. \<exists>r. re p text {IGNORECASE, MULTILINE} = Inr r \<Longrightarrow>
   \<exists>v. extract_field re text ps = Inr v"
  by (induction ps) (auto split: option.splits)

lemma extract_fields_result:
  assumes "\<forall>(f, ps)\<in>set fs. \<exists>v. extract_field re text ps = Inr v"
  shows "\<exists>d'. extract_fields re text fs d errs =
            Inr (d', errs @ map (\<lambda>f. u ''Could not extract '' @ f) (missing re text fs)) \<and>
          (\<forall>g. getattr d' g = None \<longleftrightarrow>
             getattr d g = None \<and>
             \<not> (g \<in> set field_names \<and> (\<exists>ps. (g, ps) \<in> set fs \<and> field_hit re text ps)))"
  using assms
proof (induction fs arbitrary: d errs)
  case Nil
  then show ?case by (simp add: missing_def)
next
  case (Cons a fs)
  obtain f ps where a: "a = (f, ps)" by (cases a)
  from Cons.prems a obtain v where v: "extract_field re text ps = Inr v" by auto
  have rest: "\<forall>(f, ps)\<in>set fs. \<exists>v. extract_field re text ps = Inr v"
    using Cons.prems by simp
  show ?case
  proof (cases "field_hit re text ps")
    case True
    then obtain s where s: "v = Some s" "s \<noteq> []"
      using v by (auto simp: field_hit_def split: option.splits)
    from Cons.IH [OF rest, of "setattr d f (strip s)" errs]
    obtain d' where d': "extract_fields re text fs (setattr d f (strip s)) errs =
            Inr (d', errs @ map (\<lambda>f. u ''Could not extract '' @ f) (missing re text fs))"
      and g: "\<forall>g. getattr d' g = None \<longleftrightarrow>
             getattr (setattr d f (strip s)) g = None \<and>
             \<not> (g \<in> set field_names \<and> (\<exists>ps. (g, ps) \<in> set fs \<and> field_hit re text ps))"
      by blast
    show ?thesis
      using True d' g a v s
      by (auto simp: missing_def getattr_setattr_None intro!: exI [of _ d'])
  next
    case False
    from Cons.IH [OF rest, of d "errs @ [u ''Could not extract '' @ f]"]
    obtain d' where d': "extract_fields re text fs d (errs @ [u ''Could not extract '' @ f]) =
            Inr (d', (errs @ [u ''Could not extract '' @ f]) @
                 map (\<lambda>f. u ''Could not extract '' @ f) (missing re text fs))"
      and g: "\<forall>g. getattr d' g = None \<longleftrightarrow>
             getattr d g = None \<and>
             \<not> (g \<in> set field_names \<and> (\<exists>ps. (g, ps) \<in> set fs \<and> field_hit re text ps))"
      by blast
    have step: "extract_fields re text (a # fs) d errs =
                extract_fields re text fs d (errs @ [u ''Could not extract '' @ f])"
      using False a v by (auto simp: field_hit_def split: option.splits)
    show ?thesis
      using False d' g a unfolding step
      by (auto simp: missing_def intro!: exI [of _ d'])
  qed
qed

lemma identify_in_mem:
  "identify_in re text ps = Inr (Some iss) \<Longrightarrow> iss \<in> fst ` set ps"
  by (induction ps) (auto split: sum.splits if_splits)

lemma pattern_in_all:
  "(iss, cfg) \<in> set PARSERS \<Longrightarrow> (f, ps) \<in> set (patterns cfg) \<Longrightarrow> p \<in> set ps \<Longrightarrow>
   p \<in> set all_patterns"
  by (force simp: all_patterns_def)

lemma identifier_in_all:
  "(iss, cfg) \<in> set PARSERS \<Longrightarrow> p \<in> set (identifier cfg) \<Longrightarrow> p \<in> set all_patterns"
  by (force simp: all_patterns_def)

lemma search_any_total:
  "\<forall>p\<in>set ps. \<exists>r. re p text {IGNORECASE} = Inr r \<Longrightarrow> \<exists>b. search_any re text ps = Inr b"
  by (induction ps) (auto split: option.splits)

lemma identify_in_total:
  "\<forall>(n, c)\<in>set entries. \<forall>p\<in>set (identifier c). \<exists>r. re p text {IGNORECASE} = Inr r \<Longrightarrow>
   \<exists>found. identify_in re text entries = Inr found"
proof (induction entries)
  case Nil
  then show ?case by simp
next
  case (Cons a entries)
  obtain n c where a: "a = (n, c)" by (cases a)
  from Cons.prems a obtain b where "search_any re text (identifier c) = Inr b"
    using search_any_total [of "identifier c" re "text"] by auto
  moreover from Cons obtain found where "identify_in re text entries = Inr found" by auto
  ultimately show ?case using a by simp
qed

lemma identify_issuer_total:
  "never_raises re \<Longrightarrow> \<exists>found. identify_issuer re text = Inr found"
  unfolding identify_issuer_def
  by (rule identify_in_total) (auto simp: never_raises_def dest: identifier_in_all)

lemma parse_identified:
  assumes "never_raises re"
    and "extract_text_from_pdf plumber pdf_path = Inr text"
    and "identify_issuer re text = Inr (Some iss)"
  shows "\<exists>cfg d'. map_of PARSERS iss = Some cfg \<and> profile_ok (iss, cfg) \<and>
           parse_statement re plumber pdf_path =
             set_status d' (map (\<lambda>f. u ''Could not extract '' @ f) (missing re text (patterns cfg))) \<and>
           (\<forall>g. getattr d' g = None \<longleftrightarrow>
              \<not> (g \<in> set field_names \<and> (\<exists>ps. (g, ps) \<in> set (patterns cfg) \<and> field_hit re text ps))) \<and>
           file_name d' = name pdf_path \<and> issuer d' = iss \<and>
           parsing_status d' = u ''success'' \<and> errors d' = []"
proof -
  from assms(3) have "iss \<in> fst ` set PARSERS"
    unfolding identify_issuer_def by (rule identify_in_mem)
  then obtain cfg where cfg: "map_of PARSERS iss = Some cfg"
    by (metis map_of_eq_None_iff not_Some_eq)
  then have mem: "(iss, cfg) \<in> set PARSERS" by (rule map_of_SomeD)
  with PARSERS_ok have ok: "profile_ok (iss, cfg)" by (simp add: list_all_iff)
  then have ne: "iss \<noteq> []" by (simp add: profile_ok_def)
  have total: "\<forall>(f, ps)\<in>set (patterns cfg). \<exists>v. extract_field re text ps = Inr v"
  proof (clarify, rule extract_field_total, rule ballI)
    fix f ps p
    assume "(f, ps) \<in> set (patterns cfg)" "p \<in> set ps"
    with mem have "p \<in> set all_patterns" by (rule pattern_in_all)
    with assms(1) show "\<exists>r. re p text {IGNORECASE, MULTILINE} = Inr r"
      by (simp add: never_raises_def)
  qed
  let ?d0 = "new_StatementData (name pdf_path) iss (u ''success'') []"
  from extract_fields_result [OF total, of ?d0 "[]"]
  obtain d' where run: "extract_fields re text (patterns cfg) ?d0 [] =
        Inr (d', map (\<lambda>f. u ''Could not extract '' @ f) (missing re text (patterns cfg)))"
    and g: "\<forall>g. getattr d' g = None \<longleftrightarrow> getattr ?d0 g = None \<and>
        \<not> (g \<in> set field_names \<and> (\<exists>ps. (g, ps) \<in> set (patterns cfg) \<and> field_hit re text ps))"
    by auto
  have d0: "getattr ?d0 g = None" for g
    by (simp add: getattr_def new_StatementData_def)
  from extract_fields_keeps [OF run]
  have keeps: "file_name d' = name pdf_path" "issuer d' = iss"
    "parsing_status d' = u ''success''" "errors d' = []"
    by (simp_all add: new_StatementData_def)
  have "parse_statement re plumber pdf_path =
      set_status d' (map (\<lambda>f. u ''Could not extract '' @ f) (missing re text (patterns cfg)))"
    using assms(2,3) cfg ne run by (simp add: parse_statement_def try_parse_def)
  with cfg ok g d0 keeps show ?thesis by blast
qed

lemma getattr_set_status [simp]: "getattr (set_status d errs) g = getattr d g"
  by (simp add: set_status_def getattr_def)

lemma critical_are_fields: "c \<in> set critical_fields \<Longrightarrow> c \<in> set field_names"
  by (auto simp: critical_fields_def field_names_def)

lemma another_critical: "\<exists>c'\<in>set critical_fields. c' \<noteq> c"
  by (auto simp: critical_fields_def)

subsection \<open>Evaluating the examples\<close>

lemmas parser_defs = parse_statement_def try_parse_def extract_text_from_pdf_def
  identify_issuer_def PARSERS_def match_value_def new_StatementData_def setattr_def
  getattr_def set_status_def critical_fields_def strip_def one_page_def unreadable_def
  icici_text_def icici_pdf_def other_pdf_def
  hdfc_text_def axis_text_def two_totals_text_def mixed_def icici_letter_def

lemma re_search_total:
  "re_compile p \<noteq> None \<Longrightarrow> \<exists>r. re_search p text flags = Inr r"
  by (auto simp: re_search_def split: option.splits prod.splits)

lemma all_patterns_compile: "list_all (\<lambda>p. re_compile p \<noteq> None) all_patterns"
  by (simp add: all_patterns_def PARSERS_def re_compile_def rx_def lex1_def cls_def brace_def
      number_def is_space_def is_digit_def is_alpha_def is_word_def)

lemma never_raises_re_search: "never_raises re_search"
  unfolding never_raises_def
  using all_patterns_compile by (auto simp: list_all_iff intro: re_search_total)

lemma icici_record:
  "parse_statement re_search (one_page icici_text) icici_pdf =
   \<lparr>file_name = u ''icici.pdf'', issuer = u ''ICICI Bank'', card_number = None,
    statement_date = None, payment_due_date = Some (u ''05 Jan, 2025''),
    total_amount_due = Some (u ''12,345.67''), minimum_amount_due = None,
    credit_limit = None, available_credit = None, previous_balance = None,
    parsing_status = u ''partial'',
    errors = [u ''Could not extract card_number'', u ''Could not extract statement_date'',
              u ''Could not extract minimum_amount_due'', u ''Could not extract credit_limit'',
              u ''Could not extract available_credit'', u ''Could not extract previous_balance'']\<rparr>"
  by (simp add: parser_defs engine_defs)

lemma icici_identified: "identify_issuer re_search icici_text = Inr (Some (u ''ICICI Bank''))"
  by (simp add: parser_defs engine_defs)

lemma hdfc_no_match:
  "\<forall>(n, c)\<in>set PARSERS. \<forall>q\<in>set (identifier c). re_search q hdfc_text {IGNORECASE} = Inr None"
  by (simp add: PARSERS_def engine_defs hdfc_text_def)

lemma hdfc_record:
  "parse_statement re_search (one_page hdfc_text) other_pdf =
   \<lparr>file_name = u ''other.pdf'', issuer = u ''Unknown'', card_number = None,
    statement_date = None, payment_due_date = None, total_amount_due = None,
    minimum_amount_due = None, credit_limit = None, available_credit = None,
    previous_balance = None, parsing_status = u ''failed'',
    errors = [u ''Could not identify credit card issuer'']\<rparr>"
  by (simp add: parser_defs engine_defs hdfc_text_def)

lemma parse_statement_cong:
  "plumber pdf_path = plumber' pdf_path \<Longrightarrow>
   parse_statement re plumber pdf_path = parse_statement re plumber' pdf_path"
  by (simp add: parse_statement_def try_parse_def extract_text_from_pdf_def)

lemma date_example:
  "re_search (rx ''(~d{2})-(~d{2})-(~d{4})'') (u ''01-02-2024'') {IGNORECASE, MULTILINE} =
     Inr (Some \<lparr>group0 = u ''01-02-2024'',
                groups = [Some (u ''01''), Some (u ''02''), Some (u ''2024'')]\<rparr>)"
  by (simp add: engine_defs)



lemma parse_multiple_print_all:
  "parse_multiple re plumber print pdf_paths out =
     (case print_all print out (progress_lines re plumber pdf_paths) of
        Inl e \<Rightarrow> Inl e
      | Inr out' \<Rightarrow> Inr (map (parse_statement re plumber) pdf_paths, out'))"
  by (simp add: parse_multiple_def parse_loop_print_all split: sum.splits)

lemma mixed_other_record:
  "parse_statement re_search mixed other_pdf =
     \<lparr>file_name = u ''other.pdf'', issuer = u ''Error'', card_number = None,
      statement_date = None, payment_due_date = None, total_amount_due = None,
      minimum_amount_due = None, credit_limit = None, available_credit = None,
      previous_balance = None, parsing_status = u ''error'',
      errors = [u ''Failed to extract text from PDF: No such file'']\<rparr>"
  by (simp add: parse_statement_def try_parse_def extract_text_from_pdf_def mixed_def
      other_pdf_def new_StatementData_def)

lemma mixed_icici_record:
  "parse_statement re_search mixed icici_pdf =
   \<lparr>file_name = u ''icici.pdf'', issuer = u ''ICICI Bank'', card_number = None,
    statement_date = None, payment_due_date = Some (u ''05 Jan, 2025''),
    total_amount_due = Some (u ''12,345.67''), minimum_amount_due = None,
    credit_limit = None, available_credit = None, previous_balance = None,
    parsing_status = u ''partial'',
    errors = [u ''Could not extract card_number'', u ''Could not extract statement_date'',
              u ''Could not extract minimum_amount_due'', u ''Could not extract credit_limit'',
              u ''Could not extract available_credit'', u ''Could not extract previous_balance'']\<rparr>"
proof -
  have "parse_statement re_search mixed icici_pdf =
        parse_statement re_search (one_page icici_text) icici_pdf"
    by (rule parse_statement_cong) (simp add: mixed_def one_page_def icici_pdf_def)
  then show ?thesis by (simp only: icici_record)
qed

section \<open>The claims\<close>

text \<open>
  C1. For a document whose text was extracted and whose issuer was identified, and a
  matcher that does not raise on the patterns of the registry, the status of the record
  is decided by the errors and the critical fields alone: no error gives \<^verbatim>\<open>"success"\<close>;
  otherwise the three critical fields all \<^verbatim>\<open>None\<close> gives \<^verbatim>\<open>"failed"\<close>; otherwise
  \<^verbatim>\<open>"partial"\<close>. Every profile of the registry defines the three critical fields, so the
  three of them \<^verbatim>\<open>None\<close> gives \<^verbatim>\<open>"failed"\<close> without any further condition. The errors are
  one message per field of the profile that was not matched. In particular: no field
  matched gives \<^verbatim>\<open>"failed"\<close>, every field matched gives \<^verbatim>\<open>"success"\<close>, and one critical
  field matched with every other field missing gives \<^verbatim>\<open>"partial"\<close>.
\<close>

theorem status_classification:
  assumes "never_raises re"
    and "extract_text_from_pdf plumber pdf_path = Inr text"
    and "identify_issuer re text = Inr (Some iss)"
    and "r = parse_statement re plumber pdf_path"
  shows "parsing_status r =
           (if errors r = [] then u ''success''
            else if card_number r = None \<and> total_amount_due r = None \<and> payment_due_date r = None
            then u ''failed'' else u ''partial'') \<and>
         (card_number r = None \<and> total_amount_due r = None \<and> payment_due_date r = None
            \<longrightarrow> parsing_status r = u ''failed'') \<and>
         (\<exists>cfg. map_of PARSERS iss = Some cfg \<and>
            errors r = map (\<lambda>f. u ''Could not extract '' @ f) (missing re text (patterns cfg)) \<and>
            ((\<forall>(f, ps)\<in>set (patterns cfg). \<not> field_hit re text ps)
               \<longrightarrow> parsing_status r = u ''failed'') \<and>
            ((\<forall>(f, ps)\<in>set (patterns cfg). field_hit re text ps)
               \<longrightarrow> parsing_status r = u ''success'') \<and>
            (\<forall>c cp. (c, cp) \<in> set (patterns cfg) \<and> c \<in> set critical_fields \<and>
                field_hit re text cp \<and>
                (\<forall>(f, ps)\<in>set (patterns cfg). f \<noteq> c \<longrightarrow> \<not> field_hit re text ps)
               \<longrightarrow> parsing_status r = u ''partial''))"
proof -
  from parse_identified [OF assms(1-3)]
  obtain cfg d' where cfg: "map_of PARSERS iss = Some cfg"
    and ok: "profile_ok (iss, cfg)"
    and r: "r = set_status d' (map (\<lambda>f. u ''Could not extract '' @ f) (missing re text (patterns cfg)))"
    and g: "\<forall>g. getattr d' g = None \<longleftrightarrow>
              \<not> (g \<in> set field_names \<and> (\<exists>ps. (g, ps) \<in> set (patterns cfg) \<and> field_hit re text ps))"
    and keeps: "parsing_status d' = u ''success''" "errors d' = []"
    unfolding assms(4) by blast
  let ?E = "map (\<lambda>f. u ''Could not extract '' @ f) (missing re text (patterns cfg))"
  have errs: "errors r = ?E"
    unfolding r by (simp add: set_status_def keeps)
  have crit: "(card_number r = None \<and> total_amount_due r = None \<and> payment_due_date r = None) \<longleftrightarrow>
              (\<forall>c\<in>set critical_fields. getattr d' c = None)"
    unfolding r by (simp add: set_status_def critical_fields_def getattr_def)
  have status: "parsing_status r =
      (if ?E = [] then u ''success''
       else if \<forall>c\<in>set critical_fields. getattr d' c = None then u ''failed'' else u ''partial'')"
    unfolding r by (simp add: set_status_def keeps list_all_iff)
  have key: "\<exists>ps. (c, ps) \<in> set (patterns cfg)" if "c \<in> set critical_fields" for c
    using ok that by (fastforce simp: profile_ok_def list_all_iff image_iff)
  have none_iff: "getattr d' c = None \<longleftrightarrow> (\<forall>ps. (c, ps) \<in> set (patterns cfg) \<longrightarrow> \<not> field_hit re text ps)"
    if "c \<in> set critical_fields" for c
    using g critical_are_fields [OF that] by auto
  have miss: "?E \<noteq> []" if "(f, ps) \<in> set (patterns cfg)" "\<not> field_hit re text ps" for f ps
    using that by (auto simp: missing_def filter_empty_conv)
  have first: "parsing_status r =
           (if errors r = [] then u ''success''
            else if card_number r = None \<and> total_amount_due r = None \<and> payment_due_date r = None
            then u ''failed'' else u ''partial'')"
    unfolding errs crit by (rule status)
  have second: "parsing_status r = u ''failed''"
    if "card_number r = None \<and> total_amount_due r = None \<and> payment_due_date r = None"
  proof -
    from that have all: "\<forall>c\<in>set critical_fields. getattr d' c = None" by (simp only: crit)
    obtain c where c: "c \<in> set critical_fields" using another_critical by blast
    from key [OF c] obtain ps where ps: "(c, ps) \<in> set (patterns cfg)" by blast
    from all c ps none_iff [OF c] have "\<not> field_hit re text ps" by auto
    from miss [OF ps this] all show ?thesis by (simp add: status)
  qed
  have none: "parsing_status r = u ''failed''"
    if "\<forall>(f, ps)\<in>set (patterns cfg). \<not> field_hit re text ps"
  proof -
    have all: "\<forall>c\<in>set critical_fields. getattr d' c = None"
      using that none_iff by auto
    then show ?thesis using second crit by auto
  qed
  have full: "parsing_status r = u ''success''"
    if "\<forall>(f, ps)\<in>set (patterns cfg). field_hit re text ps"
  proof -
    from that have "?E = []" by (auto simp: missing_def filter_empty_conv)
    then show ?thesis by (simp add: status)
  qed
  have one: "parsing_status r = u ''partial''"
    if "(c, cp) \<in> set (patterns cfg) \<and> c \<in> set critical_fields \<and> field_hit re text cp \<and>
        (\<forall>(f, ps)\<in>set (patterns cfg). f \<noteq> c \<longrightarrow> \<not> field_hit re text ps)" for c cp
  proof -
    from that have c: "c \<in> set critical_fields" and hit: "(c, cp) \<in> set (patterns cfg)" "field_hit re text cp"
      and others: "\<forall>(f, ps)\<in>set (patterns cfg). f \<noteq> c \<longrightarrow> \<not> field_hit re text ps"
      by blast+
    from none_iff [OF c] hit have present: "getattr d' c \<noteq> None" by auto
    obtain c' where c': "c' \<in> set critical_fields" "c' \<noteq> c" using another_critical by blast
    from key [OF c'(1)] obtain ps where ps: "(c', ps) \<in> set (patterns cfg)" by blast
    with others c'(2) have "\<not> field_hit re text ps" by auto
    from miss [OF ps this] present c show ?thesis by (auto simp: status)
  qed
  from first second cfg errs none full one show ?thesis by blast
qed

text \<open>
  The example statement: the issuer is identified, the card number is missing, the total
  amount is present, and the status is \<^verbatim>\<open>"partial"\<close>.
\<close>

theorem status_classification_witness:
  "never_raises re_search \<and>
   extract_text_from_pdf (one_page icici_text) icici_pdf = Inr icici_text \<and>
   identify_issuer re_search icici_text = Inr (Some (u ''ICICI Bank'')) \<and>
   errors (parse_statement re_search (one_page icici_text) icici_pdf) \<noteq> [] \<and>
   card_number (parse_statement re_search (one_page icici_text) icici_pdf) = None \<and>
   total_amount_due (parse_statement re_search (one_page icici_text) icici_pdf) \<noteq> None \<and>
   parsing_status (parse_statement re_search (one_page icici_text) icici_pdf) = u ''partial''"
proof -
  have extracted: "extract_text_from_pdf (one_page icici_text) icici_pdf = Inr icici_text"
    by (simp add: extract_text_from_pdf_def one_page_def)
  from status_classification [OF never_raises_re_search extracted icici_identified refl]
  have "parsing_status (parse_statement re_search (one_page icici_text) icici_pdf) =
      (if errors (parse_statement re_search (one_page icici_text) icici_pdf) = [] then u ''success''
       else if card_number (parse_statement re_search (one_page icici_text) icici_pdf) = None \<and>
               total_amount_due (parse_statement re_search (one_page icici_text) icici_pdf) = None \<and>
               payment_due_date (parse_statement re_search (one_page icici_text) icici_pdf) = None
       then u ''failed'' else u ''partial'')"
    by blast
  then show ?thesis
    using never_raises_re_search extracted icici_identified by (simp add: icici_record)
qed

text \<open>
  C2. The profiles are scanned in the order of the registry and the identifier patterns
  of a profile in the order of its list, with \<^verbatim>\<open>re.IGNORECASE\<close>. When a pattern of a
  profile matches, no pattern before it in that profile matches and no pattern of an
  earlier profile matches, the name of that profile is returned, whatever the later
  patterns and profiles would do. When no identifier pattern of any profile matches,
  the result is \<^verbatim>\<open>None\<close>.
\<close>

theorem identify_issuer_registry_order:
  "(PARSERS = before @ (iss, cfg) # rest \<and> identifier cfg = ps @ p # qs \<and>
    (\<forall>(n, c)\<in>set before. \<forall>q\<in>set (identifier c). re q text {IGNORECASE} = Inr None) \<and>
    (\<forall>q\<in>set ps. re q text {IGNORECASE} = Inr None) \<and>
    re p text {IGNORECASE} = Inr (Some found)
    \<longrightarrow> identify_issuer re text = Inr (Some iss)) \<and>
   ((\<forall>(n, c)\<in>set PARSERS. \<forall>q\<in>set (identifier c). re q text {IGNORECASE} = Inr None)
    \<longrightarrow> identify_issuer re text = Inr None)"
proof (intro conjI impI)
  assume "PARSERS = before @ (iss, cfg) # rest \<and> identifier cfg = ps @ p # qs \<and>
    (\<forall>(n, c)\<in>set before. \<forall>q\<in>set (identifier c). re q text {IGNORECASE} = Inr None) \<and>
    (\<forall>q\<in>set ps. re q text {IGNORECASE} = Inr None) \<and>
    re p text {IGNORECASE} = Inr (Some found)"
  then show "identify_issuer re text = Inr (Some iss)"
    unfolding identify_issuer_def using identify_in_found [of before re "text" cfg ps p qs found iss rest]
    by simp
next
  assume "\<forall>(n, c)\<in>set PARSERS. \<forall>q\<in>set (identifier c). re q text {IGNORECASE} = Inr None"
  then show "identify_issuer re text = Inr None"
    unfolding identify_issuer_def using identify_in_skip [of PARSERS re "text" "[]"] by simp
qed

text \<open>
  A text that names Axis Bank by its web domain and RBL Bank by its name is attributed to
  Axis Bank, the earlier profile; a text that names neither is attributed to nobody.
\<close>

theorem identify_issuer_registry_order_witness:
  "re_search (rx ''RBL~s+Bank'') axis_text {IGNORECASE} =
     Inr (Some \<lparr>group0 = u ''RBL Bank'', groups = []\<rparr>) \<and>
   identify_issuer re_search axis_text = Inr (Some (u ''Axis Bank'')) \<and>
   identify_issuer re_search hdfc_text = Inr None"
proof -
  have reg: "PARSERS = take 1 PARSERS @ (u ''Axis Bank'', snd (PARSERS ! 1)) # drop 2 PARSERS"
    by (simp add: PARSERS_def)
  have ids: "identifier (snd (PARSERS ! 1)) =
             [rx ''Axis~s+Bank''] @ rx ''axisbank~.com'' # [rx ''AAACU2414K3ZD'']"
    by (simp add: PARSERS_def)
  have earlier: "\<forall>(n, c)\<in>set (take 1 PARSERS). \<forall>q\<in>set (identifier c).
                   re_search q axis_text {IGNORECASE} = Inr None"
    by (simp add: PARSERS_def engine_defs axis_text_def)
  have before_hit: "\<forall>q\<in>set [rx ''Axis~s+Bank'']. re_search q axis_text {IGNORECASE} = Inr None"
    by (simp add: engine_defs axis_text_def)
  have hit: "re_search (rx ''axisbank~.com'') axis_text {IGNORECASE} =
               Inr (Some \<lparr>group0 = u ''axisbank.com'', groups = []\<rparr>)"
    by (simp add: engine_defs axis_text_def)
  have later: "re_search (rx ''RBL~s+Bank'') axis_text {IGNORECASE} =
     Inr (Some \<lparr>group0 = u ''RBL Bank'', groups = []\<rparr>)"
    by (simp add: engine_defs axis_text_def)
  from identify_issuer_registry_order
    [where re = re_search and ?text = axis_text and before = "take 1 PARSERS"
       and iss = "u ''Axis Bank''" and cfg = "snd (PARSERS ! 1)" and rest = "drop 2 PARSERS"
       and ps = "[rx ''Axis~s+Bank'']" and p = "rx ''axisbank~.com''"
       and qs = "[rx ''AAACU2414K3ZD'']"
       and found = "\<lparr>group0 = u ''axisbank.com'', groups = []\<rparr>"]
    reg ids earlier before_hit hit
  have axis: "identify_issuer re_search axis_text = Inr (Some (u ''Axis Bank''))"
    by blast
  from identify_issuer_registry_order [where re = re_search and ?text = hdfc_text] hdfc_no_match
  have none: "identify_issuer re_search hdfc_text = Inr None"
    by blast
  from later axis none show ?thesis by blast
qed

text \<open>
  C3. When the first pattern of the chain that matches has capture groups,
  \<open>extract_field\<close> returns the text of the last group. In particular the pattern
  \<^verbatim>\<open>(\d{2})-(\d{2})-(\d{4})\<close> on the text \<^verbatim>\<open>01-02-2024\<close> yields \<^verbatim>\<open>2024\<close>.
\<close>

theorem extract_field_last_group:
  "((\<forall>q\<in>set before. re q text {IGNORECASE, MULTILINE} = Inr None) \<and>
    re p text {IGNORECASE, MULTILINE} = Inr (Some found) \<and> groups found \<noteq> []
    \<longrightarrow> extract_field re text (before @ p # rest) = Inr (last (groups found))) \<and>
   extract_field re_search (u ''01-02-2024'') [rx ''(~d{2})-(~d{2})-(~d{4})''] = Inr (Some (u ''2024''))"
proof (intro conjI impI)
  assume "(\<forall>q\<in>set before. re q text {IGNORECASE, MULTILINE} = Inr None) \<and>
    re p text {IGNORECASE, MULTILINE} = Inr (Some found) \<and> groups found \<noteq> []"
  then show "extract_field re text (before @ p # rest) = Inr (last (groups found))"
    using extract_field_first_match [of before re "text" p found rest]
    by (simp add: match_value_def)
next
  show "extract_field re_search (u ''01-02-2024'') [rx ''(~d{2})-(~d{2})-(~d{4})''] = Inr (Some (u ''2024''))"
    using date_example by (simp add: match_value_def)
qed

text \<open>
  The same date after a pattern that does not match: the first group is \<^verbatim>\<open>01\<close>, the
  value returned is the last one.
\<close>

theorem extract_field_last_group_witness:
  "re_search (rx ''(~d{16})'') (u ''01-02-2024'') {IGNORECASE, MULTILINE} = Inr None \<and>
   re_search (rx ''(~d{2})-(~d{2})-(~d{4})'') (u ''01-02-2024'') {IGNORECASE, MULTILINE} =
     Inr (Some \<lparr>group0 = u ''01-02-2024'',
                groups = [Some (u ''01''), Some (u ''02''), Some (u ''2024'')]\<rparr>) \<and>
   extract_field re_search (u ''01-02-2024'') [rx ''(~d{16})'', rx ''(~d{2})-(~d{2})-(~d{4})''] =
     Inr (Some (u ''2024''))"
proof -
  have h0: "re_search (rx ''(~d{16})'') (u ''01-02-2024'') {IGNORECASE, MULTILINE} = Inr None"
    by (simp add: engine_defs)
  from extract_field_last_group
    [where re = re_search and ?text = "u ''01-02-2024''" and before = "[rx ''(~d{16})'']"
       and p = "rx ''(~d{2})-(~d{2})-(~d{4})''" and rest = "[]"
       and found = "\<lparr>group0 = u ''01-02-2024'',
                groups = [Some (u ''01''), Some (u ''02''), Some (u ''2024'')]\<rparr>"]
    h0 date_example
  have "extract_field re_search (u ''01-02-2024'') ([rx ''(~d{16})''] @ rx ''(~d{2})-(~d{2})-(~d{4})'' # []) =
     Inr (Some (u ''2024''))"
    by simp
  with h0 date_example show ?thesis by simp
qed

text \<open>
  C4. The two progress lines that a batch run prints for each document are printed
  outside every \<^verbatim>\<open>try\<close>. So the run raises exactly when one of these prints raises, with
  the exception of that print, and otherwise returns the records of the documents: one
  per input, in the order of the input, the file names being the names of the paths.
  Inside a document nothing escapes: an exception of the \<^verbatim>\<open>try\<close> block, from the text
  extraction or from a pattern search, becomes the error record with its message. This
  holds for every matcher, text extractor and standard output.
\<close>

theorem parse_multiple_one_record_each:
  "parse_multiple re plumber print pdf_paths out =
     (case print_all print out (progress_lines re plumber pdf_paths) of
        Inl e \<Rightarrow> Inl e
      | Inr out' \<Rightarrow> Inr (map (parse_statement re plumber) pdf_paths, out')) \<and>
   (parse_multiple re plumber print pdf_paths out = Inr (results, out')
      \<longrightarrow> results = map (parse_statement re plumber) pdf_paths \<and>
          length results = length pdf_paths \<and>
          map file_name results = map name pdf_paths) \<and>
   (try_parse re plumber pdf_path = Inl e
      \<longrightarrow> parse_statement re plumber pdf_path =
          \<lparr>file_name = name pdf_path, issuer = u ''Error'', card_number = None,
           statement_date = None, payment_due_date = None, total_amount_due = None,
           minimum_amount_due = None, credit_limit = None, available_credit = None,
           previous_balance = None, parsing_status = u ''error'', errors = [e]\<rparr>)"
proof (intro conjI impI)
  show "parse_multiple re plumber print pdf_paths out =
     (case print_all print out (progress_lines re plumber pdf_paths) of
        Inl e \<Rightarrow> Inl e
      | Inr out' \<Rightarrow> Inr (map (parse_statement re plumber) pdf_paths, out'))"
    by (rule parse_multiple_print_all)
next
  assume a: "parse_multiple re plumber print pdf_paths out = Inr (results, out')"
  then have r: "results = map (parse_statement re plumber) pdf_paths"
    by (auto simp: parse_multiple_print_all split: sum.splits)
  then show "results = map (parse_statement re plumber) pdf_paths"
    and "length results = length pdf_paths"
    and "map file_name results = map name pdf_paths"
    by (simp_all add: file_name_parse_statement)
next
  assume "try_parse re plumber pdf_path = Inl e"
  then show "parse_statement re plumber pdf_path =
          \<lparr>file_name = name pdf_path, issuer = u ''Error'', card_number = None,
           statement_date = None, payment_due_date = None, total_amount_due = None,
           minimum_amount_due = None, credit_limit = None, available_credit = None,
           previous_balance = None, parsing_status = u ''error'', errors = [e]\<rparr>"
    by (simp add: parse_statement_def new_StatementData_def)
qed

text \<open>
  A batch of the example statement and an unreadable file, on a standard output that
  takes every line: two records, four lines.
\<close>

theorem parse_multiple_one_record_each_witness:
  "parse_multiple re_search mixed utf8_stdout [icici_pdf, other_pdf] [] =
     Inr ([parse_statement re_search mixed icici_pdf, parse_statement re_search mixed other_pdf],
          [u ''Processing: icici.pdf...'', u ''  '' @ [9888] @ u '' ICICI Bank - partial'',
           u ''Processing: other.pdf...'', u ''  '' @ [10007] @ u '' Error - error'']) \<and>
   map file_name [parse_statement re_search mixed icici_pdf,
                  parse_statement re_search mixed other_pdf] = [u ''icici.pdf'', u ''other.pdf''] \<and>
   try_parse re_search mixed other_pdf = Inl (u ''Failed to extract text from PDF: No such file'')"
proof -
  have printed: "print_all utf8_stdout [] (progress_lines re_search mixed [icici_pdf, other_pdf]) =
      Inr [u ''Processing: icici.pdf...'', u ''  '' @ [9888] @ u '' ICICI Bank - partial'',
           u ''Processing: other.pdf...'', u ''  '' @ [10007] @ u '' Error - error'']"
    using mixed_icici_record mixed_other_record
    by (simp add: progress_lines_def processing_line_def feedback_line_def status_symbol_def
        utf8_stdout_def icici_pdf_def other_pdf_def)
  have raised: "try_parse re_search mixed other_pdf =
      Inl (u ''Failed to extract text from PDF: No such file'')"
    by (simp add: try_parse_def extract_text_from_pdf_def mixed_def other_pdf_def)
  from parse_multiple_one_record_each
    [where re = re_search and plumber = mixed and print = utf8_stdout
       and pdf_paths = "[icici_pdf, other_pdf]" and out = "[]"
       and pdf_path = other_pdf
       and e = "u ''Failed to extract text from PDF: No such file''"]
    printed raised
  show ?thesis
    using mixed_icici_record mixed_other_record by simp
qed

text \<open>
  On a standard output encoded in ASCII the batch of the example statement alone returns
  no list: the line that reports the status holds the warning sign, and its print raises.
\<close>

theorem parse_multiple_raises_counterexample:
  "parse_multiple re_search (one_page icici_text) ascii_stdout [icici_pdf] [] =
     Inl (u ''UnicodeEncodeError'')"
  using icici_record
  by (simp add: parse_multiple_def processing_line_def feedback_line_def status_symbol_def
      ascii_stdout_def icici_pdf_def)




text \<open>
  C6. When the text of a document was extracted and no identifier pattern of any profile
  matches it, the record has issuer \<^verbatim>\<open>"Unknown"\<close>, status \<^verbatim>\<open>"failed"\<close>, all eight fields
  \<^verbatim>\<open>None\<close>, and exactly one error, \<^verbatim>\<open>"Could not identify credit card issuer"\<close>.
\<close>

theorem unidentified_record:
  assumes "extract_text_from_pdf plumber pdf_path = Inr text"
    and "\<forall>(n, c)\<in>set PARSERS. \<forall>q\<in>set (identifier c). re q text {IGNORECASE} = Inr None"
  shows "parse_statement re plumber pdf_path =
   \<lparr>file_name = name pdf_path, issuer = u ''Unknown'', card_number = None,
    statement_date = None, payment_due_date = None, total_amount_due = None,
    minimum_amount_due = None, credit_limit = None, available_credit = None,
    previous_balance = None, parsing_status = u ''failed'',
    errors = [u ''Could not identify credit card issuer'']\<rparr>"
proof -
  have "identify_issuer re text = Inr None"
    unfolding identify_issuer_def
    using assms(2) identify_in_skip [of PARSERS re "text" "[]"] by simp
  with assms(1) show ?thesis
    by (simp add: parse_statement_def try_parse_def new_StatementData_def)
qed

text \<open>
  A text that names a bank outside the registry.
\<close>

theorem unidentified_record_witness:
  "extract_text_from_pdf (one_page hdfc_text) other_pdf = Inr hdfc_text \<and>
   parse_statement re_search (one_page hdfc_text) other_pdf =
   \<lparr>file_name = u ''other.pdf'', issuer = u ''Unknown'', card_number = None,
    statement_date = None, payment_due_date = None, total_amount_due = None,
    minimum_amount_due = None, credit_limit = None, available_credit = None,
    previous_balance = None, parsing_status = u ''failed'',
    errors = [u ''Could not identify credit card issuer'']\<rparr>"
proof -
  have extracted: "extract_text_from_pdf (one_page hdfc_text) other_pdf = Inr hdfc_text"
    by (simp add: extract_text_from_pdf_def one_page_def)
  from unidentified_record [where re = re_search, OF extracted hdfc_no_match] extracted
  show ?thesis by (simp add: other_pdf_def)
qed

text \<open>
  The errors of that record are not the list the claim gives, whose only element is
  \<^verbatim>\<open>"could not identify issuer"\<close>.
\<close>

theorem unidentified_message_counterexample:
  "errors (parse_statement re_search (one_page hdfc_text) other_pdf) \<noteq>
     [u ''could not identify issuer'']"
  by (simp add: hdfc_record)

text \<open>
  C7. With a matcher that does not raise on the patterns of the registry, a record has
  status \<^verbatim>\<open>"error"\<close> only when \<open>extract_text_from_pdf\<close> failed for its document. When
  it fails with the message \<open>e\<close>, the record has issuer \<^verbatim>\<open>"Error"\<close>, all eight fields
  \<^verbatim>\<open>None\<close> and the errors \<open>[e]\<close>; \<open>e\<close> is the message of the library with the prefix that
  \<open>extract_text_from_pdf\<close> puts before it. When the progress lines of the batch can all
  be printed, the documents before and after the failing one are processed as if it were
  not there.
\<close>

theorem error_only_from_text_extraction:
  "(never_raises re \<and> parsing_status (parse_statement re plumber pdf_path) = u ''error''
      \<longrightarrow> (\<exists>e. extract_text_from_pdf plumber pdf_path = Inl e)) \<and>
   (extract_text_from_pdf plumber pdf_path = Inl e
      \<longrightarrow> parse_statement re plumber pdf_path =
          \<lparr>file_name = name pdf_path, issuer = u ''Error'', card_number = None,
           statement_date = None, payment_due_date = None, total_amount_due = None,
           minimum_amount_due = None, credit_limit = None, available_credit = None,
           previous_balance = None, parsing_status = u ''error'', errors = [e]\<rparr>) \<and>
   (plumber pdf_path = Inl msg
      \<longrightarrow> extract_text_from_pdf plumber pdf_path = Inl (u ''Failed to extract text from PDF: '' @ msg)) \<and>
   (print_all print out (progress_lines re plumber (before @ pdf_path # rest)) = Inr out'
      \<longrightarrow> parse_multiple re plumber print (before @ pdf_path # rest) out =
          Inr (map (parse_statement re plumber) before @ parse_statement re plumber pdf_path #
               map (parse_statement re plumber) rest, out'))"
proof (intro conjI impI)
  assume a: "never_raises re \<and> parsing_status (parse_statement re plumber pdf_path) = u ''error''"
  show "\<exists>e. extract_text_from_pdf plumber pdf_path = Inl e"
  proof (cases "extract_text_from_pdf plumber pdf_path")
    case (Inl e)
    then show ?thesis by blast
  next
    case (Inr t)
    from a have nr: "never_raises re" by simp
    from identify_issuer_total [OF nr, of t] obtain found
      where found: "identify_issuer re t = Inr found" by blast
    have "parsing_status (parse_statement re plumber pdf_path) \<noteq> u ''error''"
    proof (cases found)
      case None
      with Inr found show ?thesis
        by (simp add: parse_statement_def try_parse_def new_StatementData_def)
    next
      case (Some iss)
      with found have "identify_issuer re t = Inr (Some iss)" by simp
      from parse_identified [OF nr Inr this]
      obtain d' errs where "parse_statement re plumber pdf_path = set_status d' errs"
        and "parsing_status d' = u ''success''" by blast
      then show ?thesis by (simp add: set_status_def)
    qed
    with a show ?thesis by simp
  qed
next
  assume "extract_text_from_pdf plumber pdf_path = Inl e"
  then show "parse_statement re plumber pdf_path =
          \<lparr>file_name = name pdf_path, issuer = u ''Error'', card_number = None,
           statement_date = None, payment_due_date = None, total_amount_due = None,
           minimum_amount_due = None, credit_limit = None, available_credit = None,
           previous_balance = None, parsing_status = u ''error'', errors = [e]\<rparr>"
    by (simp add: parse_statement_def try_parse_def new_StatementData_def)
next
  assume "plumber pdf_path = Inl msg"
  then show "extract_text_from_pdf plumber pdf_path = Inl (u ''Failed to extract text from PDF: '' @ msg)"
    by (simp add: extract_text_from_pdf_def)
next
  assume "print_all print out (progress_lines re plumber (before @ pdf_path # rest)) = Inr out'"
  then show "parse_multiple re plumber print (before @ pdf_path # rest) out =
          Inr (map (parse_statement re plumber) before @ parse_statement re plumber pdf_path #
               map (parse_statement re plumber) rest, out')"
    by (simp add: parse_multiple_print_all)
qed

text \<open>
  A batch of an unreadable file followed by the example statement, on a standard output
  that takes every line: an error record, then the partial record.
\<close>

theorem error_only_from_text_extraction_witness:
  "never_raises re_search \<and>
   parsing_status (parse_statement re_search mixed other_pdf) = u ''error'' \<and>
   extract_text_from_pdf mixed other_pdf = Inl (u ''Failed to extract text from PDF: No such file'') \<and>
   parse_statement re_search mixed other_pdf =
     \<lparr>file_name = u ''other.pdf'', issuer = u ''Error'', card_number = None,
      statement_date = None, payment_due_date = None, total_amount_due = None,
      minimum_amount_due = None, credit_limit = None, available_credit = None,
      previous_balance = None, parsing_status = u ''error'',
      errors = [u ''Failed to extract text from PDF: No such file'']\<rparr> \<and>
   parse_multiple re_search mixed utf8_stdout [other_pdf, icici_pdf] [] =
     Inr ([parse_statement re_search mixed other_pdf, parse_statement re_search mixed icici_pdf],
          [u ''Processing: other.pdf...'', u ''  '' @ [10007] @ u '' Error - error'',
           u ''Processing: icici.pdf...'', u ''  '' @ [9888] @ u '' ICICI Bank - partial'']) \<and>
   parsing_status (parse_statement re_search mixed icici_pdf) = u ''partial''"
proof -
  have raised: "mixed other_pdf = Inl (u ''No such file'')"
    by (simp add: mixed_def other_pdf_def)
  have printed: "print_all utf8_stdout [] (progress_lines re_search mixed ([] @ other_pdf # [icici_pdf])) =
      Inr [u ''Processing: other.pdf...'', u ''  '' @ [10007] @ u '' Error - error'',
           u ''Processing: icici.pdf...'', u ''  '' @ [9888] @ u '' ICICI Bank - partial'']"
    using mixed_icici_record mixed_other_record
    by (simp add: progress_lines_def processing_line_def feedback_line_def status_symbol_def
        utf8_stdout_def icici_pdf_def other_pdf_def)
  note inst = error_only_from_text_extraction
    [where re = re_search and plumber = mixed and pdf_path = other_pdf
       and msg = "u ''No such file''"
       and e = "u ''Failed to extract text from PDF: No such file''"
       and print = utf8_stdout and out = "[]"
       and before = "[]" and rest = "[icici_pdf]"]
  from inst raised
  have failed: "extract_text_from_pdf mixed other_pdf =
                Inl (u ''Failed to extract text from PDF: No such file'')"
    by simp
  with inst have rec_eq: "parse_statement re_search mixed other_pdf =
     \<lparr>file_name = name other_pdf, issuer = u ''Error'', card_number = None,
      statement_date = None, payment_due_date = None, total_amount_due = None,
      minimum_amount_due = None, credit_limit = None, available_credit = None,
      previous_balance = None, parsing_status = u ''error'',
      errors = [u ''Failed to extract text from PDF: No such file'']\<rparr>"
    by simp
  from inst printed
  have batch: "parse_multiple re_search mixed utf8_stdout ([] @ other_pdf # [icici_pdf]) [] =
     Inr (map (parse_statement re_search mixed) [] @ parse_statement re_search mixed other_pdf #
          map (parse_statement re_search mixed) [icici_pdf],
          [u ''Processing: other.pdf...'', u ''  '' @ [10007] @ u '' Error - error'',
           u ''Processing: icici.pdf...'', u ''  '' @ [9888] @ u '' ICICI Bank - partial''])"
    by blast
  show ?thesis
    using never_raises_re_search failed rec_eq batch mixed_icici_record
    by (simp add: other_pdf_def)
qed

text \<open>
  The same batch on a standard output encoded in ASCII: the first line is printed, the
  text extraction fails, and the print of the line that reports the error record, which
  holds the ballot cross, raises. The statement that follows is not processed.
\<close>

theorem error_record_blocks_batch_counterexample:
  "extract_text_from_pdf mixed other_pdf = Inl (u ''Failed to extract text from PDF: No such file'') \<and>
   ascii_stdout [] (processing_line other_pdf) = Inr [u ''Processing: other.pdf...''] \<and>
   parse_multiple re_search mixed ascii_stdout [other_pdf, icici_pdf] [] =
     Inl (u ''UnicodeEncodeError'')"
  using mixed_other_record
  by (simp add: parse_multiple_def processing_line_def feedback_line_def status_symbol_def
      ascii_stdout_def other_pdf_def extract_text_from_pdf_def mixed_def)

text \<open>
  C8. When the first pattern of a chain matches the text, \<open>extract_field\<close> returns
  the value of that match, whether the chain goes on with a second pattern that matches
  too or with any other patterns: they are not tried.
\<close>

theorem extract_field_first_pattern_wins:
  assumes "re p1 text {IGNORECASE, MULTILINE} = Inr (Some m1)"
    and "re p2 text {IGNORECASE, MULTILINE} = Inr (Some m2)"
  shows "extract_field re text [p1, p2] = Inr (match_value m1) \<and>
         extract_field re text (p1 # rest) = Inr (match_value m1)"
  using assms(1) by simp

text \<open>
  Both patterns for the total amount of the first profile match a text in which the
  match of the second pattern comes first; the value of the first pattern is returned.
\<close>

theorem extract_field_first_pattern_wins_witness:
  "re_search (rx ''Total~s+Amount~s+due[:~s]*[#`Rs~.?~s]*([0-9,]+~.?~d{0,2})'') two_totals_text
      {IGNORECASE, MULTILINE} =
     Inr (Some \<lparr>group0 = u ''Total Amount due: 5.00'', groups = [Some (u ''5.00'')]\<rparr>) \<and>
   re_search (rx ''Total~s+Payment~s+Due[:~s]*[#`Rs~.?~s]*([0-9,]+~.?~d{0,2})'') two_totals_text
      {IGNORECASE, MULTILINE} =
     Inr (Some \<lparr>group0 = u ''Total Payment Due: 7.00'', groups = [Some (u ''7.00'')]\<rparr>) \<and>
   extract_field re_search two_totals_text
     [rx ''Total~s+Amount~s+due[:~s]*[#`Rs~.?~s]*([0-9,]+~.?~d{0,2})'',
      rx ''Total~s+Payment~s+Due[:~s]*[#`Rs~.?~s]*([0-9,]+~.?~d{0,2})''] = Inr (Some (u ''5.00''))"
proof -
  have h1: "re_search (rx ''Total~s+Amount~s+due[:~s]*[#`Rs~.?~s]*([0-9,]+~.?~d{0,2})'')
      two_totals_text {IGNORECASE, MULTILINE} =
     Inr (Some \<lparr>group0 = u ''Total Amount due: 5.00'', groups = [Some (u ''5.00'')]\<rparr>)"
    by (simp add: engine_defs two_totals_text_def)
  have h2: "re_search (rx ''Total~s+Payment~s+Due[:~s]*[#`Rs~.?~s]*([0-9,]+~.?~d{0,2})'')
      two_totals_text {IGNORECASE, MULTILINE} =
     Inr (Some \<lparr>group0 = u ''Total Payment Due: 7.00'', groups = [Some (u ''7.00'')]\<rparr>)"
    by (simp add: engine_defs two_totals_text_def)
  from extract_field_first_pattern_wins [where re = re_search, OF h1 h2, of "[]"]
  have "extract_field re_search two_totals_text
     [rx ''Total~s+Amount~s+due[:~s]*[#`Rs~.?~s]*([0-9,]+~.?~d{0,2})'',
      rx ''Total~s+Payment~s+Due[:~s]*[#`Rs~.?~s]*([0-9,]+~.?~d{0,2})''] = Inr (Some (u ''5.00''))"
    by (simp add: match_value_def)
  with h1 h2 show ?thesis by blast
qed

text \<open>
  C9. When the first pattern of the chain that matches has no capture group,
  \<open>extract_field\<close> returns the whole match as it stands, whitespace included. The
  whitespace is removed afterwards, by the loop of \<open>parse_statement\<close> that stores the
  value in the record.
\<close>

theorem extract_field_whole_match:
  "((\<forall>q\<in>set before. re q text {IGNORECASE, MULTILINE} = Inr None) \<and>
    re p text {IGNORECASE, MULTILINE} = Inr (Some found) \<and> groups found = []
    \<longrightarrow> extract_field re text (before @ p # rest) = Inr (Some (group0 found))) \<and>
   (extract_field re text pats = Inr (Some v) \<and> v \<noteq> []
    \<longrightarrow> extract_fields re text [(field, pats)] data errs = Inr (setattr data field (strip v), errs))"
proof (intro conjI impI)
  assume "(\<forall>q\<in>set before. re q text {IGNORECASE, MULTILINE} = Inr None) \<and>
    re p text {IGNORECASE, MULTILINE} = Inr (Some found) \<and> groups found = []"
  then show "extract_field re text (before @ p # rest) = Inr (Some (group0 found))"
    using extract_field_first_match [of before re "text" p found rest]
    by (simp add: match_value_def)
next
  assume "extract_field re text pats = Inr (Some v) \<and> v \<noteq> []"
  then show "extract_fields re text [(field, pats)] data errs = Inr (setattr data field (strip v), errs)"
    by simp
qed

text \<open>
  The pattern \<^verbatim>\<open>\s+Bank\<close> on \<^verbatim>\<open>ICICI Bank\<close>: the value returned starts with a blank,
  the value stored does not.
\<close>

theorem extract_field_whole_match_witness:
  "re_search (rx ''~s+Bank'') (u ''ICICI Bank'') {IGNORECASE, MULTILINE} =
     Inr (Some \<lparr>group0 = u '' Bank'', groups = []\<rparr>) \<and>
   extract_field re_search (u ''ICICI Bank'') [rx ''~s+Bank''] = Inr (Some (u '' Bank'')) \<and>
   extract_fields re_search (u ''ICICI Bank'') [(u ''card_number'', [rx ''~s+Bank''])]
     (new_StatementData (u ''a.pdf'') (u ''ICICI Bank'') (u ''success'') []) [] =
     Inr ((new_StatementData (u ''a.pdf'') (u ''ICICI Bank'') (u ''success'') [])
            \<lparr>card_number := Some (u ''Bank'')\<rparr>, [])"
proof -
  have h: "re_search (rx ''~s+Bank'') (u ''ICICI Bank'') {IGNORECASE, MULTILINE} =
     Inr (Some \<lparr>group0 = u '' Bank'', groups = []\<rparr>)"
    by (simp add: engine_defs)
  note inst = extract_field_whole_match
    [where re = re_search and ?text = "u ''ICICI Bank''" and before = "[]"
       and p = "rx ''~s+Bank''" and rest = "[]"
       and found = "\<lparr>group0 = u '' Bank'', groups = []\<rparr>"
       and pats = "[rx ''~s+Bank'']" and v = "u '' Bank''" and field = "u ''card_number''"
       and data = "new_StatementData (u ''a.pdf'') (u ''ICICI Bank'') (u ''success'') []"
       and errs = "[]"]
  from inst h
  have whole: "extract_field re_search (u ''ICICI Bank'') [rx ''~s+Bank''] = Inr (Some (u '' Bank''))"
    by simp
  with inst
  have "extract_fields re_search (u ''ICICI Bank'') [(u ''card_number'', [rx ''~s+Bank''])]
     (new_StatementData (u ''a.pdf'') (u ''ICICI Bank'') (u ''success'') []) [] =
     Inr (setattr (new_StatementData (u ''a.pdf'') (u ''ICICI Bank'') (u ''success'') [])
            (u ''card_number'') (strip (u '' Bank'')), [])"
    by simp
  with h whole show ?thesis
    by (simp add: setattr_def strip_def is_space_def)
qed

text \<open>
  On that input \<open>extract_field\<close> does not return the trimmed match.
\<close>

theorem extract_field_trim_counterexample:
  "re_search (rx ''~s+Bank'') (u ''ICICI Bank'') {IGNORECASE, MULTILINE} =
     Inr (Some \<lparr>group0 = u '' Bank'', groups = []\<rparr>) \<and>
   extract_field re_search (u ''ICICI Bank'') [rx ''~s+Bank''] \<noteq> Inr (Some (strip (u '' Bank'')))"
  by (simp add: engine_defs match_value_def strip_def)

text \<open>
  C10. The status of a record produced by \<open>parse_statement\<close> is \<^verbatim>\<open>"success"\<close> exactly when
  its list of errors is empty; so every partial, failed or error record carries at least
  one diagnostic.
\<close>

theorem success_iff_no_errors:
  "parsing_status (parse_statement re plumber pdf_path) = u ''success'' \<longleftrightarrow>
   errors (parse_statement re plumber pdf_path) = []"
  by (auto simp: parse_statement_def try_parse_def new_StatementData_def set_status_def
      split: sum.splits option.splits if_splits dest!: extract_fields_keeps)

end
